theory Spec2Isabelle
  imports Complex_Main
begin

section \<open>Data model of the detection service\<close>

text \<open>
  The service of \<^verbatim>\<open>YOLOv8Service.py\<close> computes with Python and numpy floats.
  They are modelled by \<^typ>\<open>real\<close>: every statement below is about exact arithmetic, and
  rounding, infinities and NaN are outside the model. Python integers are \<^typ>\<open>int\<close>,
  strings and byte strings are \<^typ>\<open>string\<close>.
\<close>

type_synonym bytes = string

text \<open>A row of \<^verbatim>\<open>result.boxes.xyxy\<close>: the pixel-space corners \<open>(x1, y1, x2, y2)\<close>.\<close>

type_synonym xyxy = "real \<times> real \<times> real \<times> real"

text \<open>
  The pydantic models. The fields of \<^verbatim>\<open>BoundingBox\<close> carry the prefix \<open>bbox_\<close>
  (a record field is a constant, and \<open>x\<close> and \<open>y\<close> are wanted as variables).
\<close>

record BoundingBox =
  bbox_x :: real
  bbox_y :: real
  bbox_width :: real
  bbox_height :: real

record Detection =
  class_name :: string
  confidence :: real
  bbox :: BoundingBox

record DetectionRequest =
  image_data :: "string option"
  image_url :: "string option"
  classes :: "string list"
  thresholds :: "(string \<times> real) list"
  nms_iou :: real

text \<open>Values of the untyped dictionaries the endpoints return (\<^verbatim>\<open>Dict[str, Any]\<close>).\<close>

datatype any = String string | Integer int | Float real | Boolean bool

record DetectionResponse =
  detections :: "Detection list"
  processing_time_ms :: real
  image_size :: "int \<times> int"
  model_info :: "(string \<times> any) list"

record HealthResponse =
  status :: string
  model_loaded :: bool
  device :: string
  timestamp :: real

text \<open>
  What the detection library hands back: a list of results, each with \<^verbatim>\<open>boxes\<close> that
  is \<^verbatim>\<open>None\<close> or holds three parallel arrays. \<open>boxes_cls\<close> is the class array after
  \<^verbatim>\<open>.astype(int)\<close>.
\<close>

record Boxes =
  boxes_xyxy :: "xyxy list"
  boxes_conf :: "real list"
  boxes_cls :: "int list"

record Results =
  boxes :: "Boxes option"

text \<open>
  The decoded image, \<^verbatim>\<open>np.array\<close> of an RGB picture: an array of shape
  \<open>(height, width, 3)\<close>, so \<^verbatim>\<open>shape[:2]\<close> is \<open>(ndarray_height, ndarray_width)\<close>.
\<close>

record ndarray =
  ndarray_height :: int
  ndarray_width :: int
  ndarray_data :: "nat list"

text \<open>
  Exceptions as values. \<^verbatim>\<open>HTTPException\<close> is a subclass of \<^verbatim>\<open>Exception\<close>, so a handler
  \<^verbatim>\<open>except Exception\<close> catches both constructors. Any other exception is kept by its
  message, the text \<^verbatim>\<open>str(e)\<close> gives.
\<close>

datatype exception =
    HTTPException (status_code: nat) (detail: string)
  | Exception (message: string)

text \<open>
  The loaded network, called as \<^verbatim>\<open>model(img_array, conf=..., iou=..., verbose=False)\<close>:
  it returns results or raises.
\<close>

type_synonym YOLO = "ndarray \<Rightarrow> real \<Rightarrow> real \<Rightarrow> string + Results list"

text \<open>
  The process state and the library functions the service calls, taken as parameters:
  the global \<^verbatim>\<open>model\<close>, the configuration read from the environment at import time, the
  base64 codec, the image library (\<^verbatim>\<open>Image.open\<close>, \<^verbatim>\<open>image.mode\<close>,
  \<^verbatim>\<open>image.convert\<close>, \<^verbatim>\<open>np.array\<close>, each of which may raise), the text
  \<^verbatim>\<open>str(e)\<close> of an \<^verbatim>\<open>HTTPException\<close>, the two readings of the event-loop clock
  taken while a request is served, and the wall clock.
\<close>

record 'img env =
  model :: "YOLO option"
  DEVICE :: string
  CONFIDENCE_THRESHOLD :: real
  b64decode :: "string \<Rightarrow> string + bytes"
  b64encode :: "bytes \<Rightarrow> string"
  Image_open :: "bytes \<Rightarrow> string + 'img"
  image_mode :: "'img \<Rightarrow> string"
  image_convert :: "'img \<Rightarrow> string \<Rightarrow> string + 'img"
  np_array :: "'img \<Rightarrow> string + ndarray"
  HTTPException_str :: "nat \<Rightarrow> string \<Rightarrow> string"
  loop_time :: "DetectionRequest \<Rightarrow> real \<times> real"
  datetime_now :: real

section \<open>Class mapping\<close>

text \<open>The dictionary literal \<^verbatim>\<open>YOLO_TO_VY_CLASSES\<close>, and \<^verbatim>\<open>dict.get\<close>.\<close>

definition YOLO_TO_VY_CLASSES :: "(int \<times> string) list" where
  "YOLO_TO_VY_CLASSES =
     [(0, ''person''), (1, ''bicycle''), (2, ''car''), (3, ''motorcycle''),
      (5, ''truck''), (7, ''truck''), (14, ''animal''), (15, ''animal''),
      (16, ''animal''), (17, ''animal'')]"

definition dict_get :: "('k \<times> 'v) list \<Rightarrow> 'k \<Rightarrow> 'v option" where
  "dict_get d k = map_of d k"

definition dict_get_default :: "('k \<times> 'v) list \<Rightarrow> 'k \<Rightarrow> 'v \<Rightarrow> 'v" where
  "dict_get_default d k dflt = (case map_of d k of None \<Rightarrow> dflt | Some v \<Rightarrow> v)"

definition dict_values :: "('k \<times> 'v) list \<Rightarrow> 'v list" where
  "dict_values d = map snd d"

section \<open>Bounding-box normalizer\<close>

text \<open>
  \<^verbatim>\<open>normalize_bbox\<close> divides by the image dimensions and does nothing else. The model
  is the code for positive dimensions, which every decoded image has (in HOL \<open>a / 0 = 0\<close>,
  in numpy it is an infinity or NaN).
\<close>

definition normalize_bbox :: "xyxy \<Rightarrow> int \<Rightarrow> int \<Rightarrow> BoundingBox" where
  "normalize_bbox b img_width img_height =
     (case b of (x1, y1, x2, y2) \<Rightarrow>
        \<lparr> bbox_x = x1 / real_of_int img_width,
          bbox_y = y1 / real_of_int img_height,
          bbox_width = (x2 - x1) / real_of_int img_width,
          bbox_height = (y2 - y1) / real_of_int img_height \<rparr>)"

section \<open>Filtering and remapping\<close>

text \<open>
  The inner loop of \<^verbatim>\<open>filter_detections\<close> over
  \<^verbatim>\<open>zip(boxes, confidences, class_ids)\<close>, with the list \<open>acc\<close> the loop appends to.
  Each \<^verbatim>\<open>continue\<close> is a recursive call that leaves \<open>acc\<close> as it is.
  \<^verbatim>\<open>not vy_class\<close> holds for \<^verbatim>\<open>None\<close> and for the empty string.
\<close>

fun filter_boxes ::
  "real \<Rightarrow> string list \<Rightarrow> (string \<times> real) list \<Rightarrow> int \<Rightarrow> int \<Rightarrow>
   (xyxy \<times> real \<times> int) list \<Rightarrow> Detection list \<Rightarrow> Detection list" where
  "filter_boxes ct cs ths img_width img_height [] acc = acc"
| "filter_boxes ct cs ths img_width img_height ((box, cnf, class_id) # rest) acc =
     (case dict_get YOLO_TO_VY_CLASSES class_id of
        None \<Rightarrow> filter_boxes ct cs ths img_width img_height rest acc
      | Some vy_class \<Rightarrow>
          if vy_class = [] then filter_boxes ct cs ths img_width img_height rest acc
          else if cs \<noteq> [] \<and> vy_class \<notin> set cs
            then filter_boxes ct cs ths img_width img_height rest acc
          else if cnf < dict_get_default ths vy_class ct
            then filter_boxes ct cs ths img_width img_height rest acc
          else filter_boxes ct cs ths img_width img_height rest
                 (acc @ [\<lparr> class_name = vy_class, confidence = cnf,
                           bbox = normalize_bbox box img_width img_height \<rparr>]))"

text \<open>The outer loop over the results; a result without boxes is skipped.\<close>

fun filter_results ::
  "real \<Rightarrow> string list \<Rightarrow> (string \<times> real) list \<Rightarrow> int \<Rightarrow> int \<Rightarrow>
   Results list \<Rightarrow> Detection list \<Rightarrow> Detection list" where
  "filter_results ct cs ths img_width img_height [] acc = acc"
| "filter_results ct cs ths img_width img_height (result # rest) acc =
     (case boxes result of
        None \<Rightarrow> filter_results ct cs ths img_width img_height rest acc
      | Some b \<Rightarrow>
          filter_results ct cs ths img_width img_height rest
            (filter_boxes ct cs ths img_width img_height
               (zip (boxes_xyxy b) (zip (boxes_conf b) (boxes_cls b))) acc))"

text \<open>
  \<^verbatim>\<open>filter_detections\<close>; its first argument is the global
  \<^verbatim>\<open>CONFIDENCE_THRESHOLD\<close> the function reads.
\<close>

definition filter_detections ::
  "real \<Rightarrow> Results list \<Rightarrow> string list \<Rightarrow> (string \<times> real) list \<Rightarrow> int \<Rightarrow> int \<Rightarrow>
   Detection list" where
  "filter_detections ct results cs ths img_width img_height =
     filter_results ct cs ths img_width img_height results []"

section \<open>Image decoder\<close>

text \<open>\<^verbatim>\<open>str.startswith\<close>, \<^verbatim>\<open>str.split\<close> on a one-character separator, and list indexing.\<close>

definition startswith :: "string \<Rightarrow> string \<Rightarrow> bool" where
  "startswith s p = (take (length p) s = p)"

fun str_split :: "string \<Rightarrow> char \<Rightarrow> string list" where
  "str_split [] sep = [[]]"
| "str_split (c # cs) sep =
     (if c = sep then [] # str_split cs sep
      else (case str_split cs sep of
              [] \<Rightarrow> [[c]]
            | w # ws \<Rightarrow> (c # w) # ws))"

definition py_index :: "'a list \<Rightarrow> nat \<Rightarrow> string + 'a" where
  "py_index xs i = (if i < length xs then Inr (xs ! i) else Inl ''list index out of range'')"

text \<open>
  The body of the \<^verbatim>\<open>try\<close> block of \<^verbatim>\<open>decode_image\<close>; \<open>Inl\<close> carries the text of
  the exception a step raised.
\<close>

definition decode_image_try :: "'img env \<Rightarrow> string \<Rightarrow> string + ndarray" where
  "decode_image_try E data =
     (case (if startswith data ''data:image''
            then py_index (str_split data CHR '','') 1
            else Inr data) of
        Inl e \<Rightarrow> Inl e
      | Inr payload \<Rightarrow>
          (case b64decode E payload of
             Inl e \<Rightarrow> Inl e
           | Inr image_bytes \<Rightarrow>
               (case Image_open E image_bytes of
                  Inl e \<Rightarrow> Inl e
                | Inr img \<Rightarrow>
                    (case (if image_mode E img \<noteq> ''RGB''
                           then image_convert E img ''RGB''
                           else Inr img) of
                       Inl e \<Rightarrow> Inl e
                     | Inr rgb \<Rightarrow> np_array E rgb))))"

text \<open>\<^verbatim>\<open>decode_image\<close>: every exception of the body becomes a 400.\<close>

definition decode_image :: "'img env \<Rightarrow> string \<Rightarrow> exception + ndarray" where
  "decode_image E data =
     (case decode_image_try E data of
        Inl e \<Rightarrow> Inl (HTTPException 400 (''Invalid image data: '' @ e))
      | Inr img_array \<Rightarrow> Inr img_array)"

section \<open>The endpoints\<close>

text \<open>\<^verbatim>\<open>str(e)\<close> and the truth value of an optional string.\<close>

definition str_exception :: "'img env \<Rightarrow> exception \<Rightarrow> string" where
  "str_exception E e =
     (case e of HTTPException sc d \<Rightarrow> HTTPException_str E sc d | Exception m \<Rightarrow> m)"

definition truthy :: "string option \<Rightarrow> bool" where
  "truthy v = (case v of None \<Rightarrow> False | Some s \<Rightarrow> s \<noteq> [])"

text \<open>
  Python's \<^verbatim>\<open>min\<close> over a sequence: the first element, replaced by each later one that
  is smaller; \<^verbatim>\<open>ValueError\<close> on an empty sequence.
\<close>

fun py_min :: "real list \<Rightarrow> exception + real" where
  "py_min [] = Inl (Exception ''min() arg is an empty sequence'')"
| "py_min (v # vs) = Inr (fold (\<lambda>x m. if x < m then x else m) vs v)"

text \<open>\<^verbatim>\<open>health_check\<close>.\<close>

definition health_check :: "'img env \<Rightarrow> HealthResponse" where
  "health_check E =
     \<lparr> status = (if model E \<noteq> None then ''healthy'' else ''unhealthy''),
       model_loaded = (model E \<noteq> None),
       device = DEVICE E,
       timestamp = datetime_now E \<rparr>"

text \<open>
  The body of the \<^verbatim>\<open>try\<close> block of \<^verbatim>\<open>detect_objects\<close>, for the loaded model \<open>m\<close>.
\<close>

definition detect_objects_try ::
  "'img env \<Rightarrow> YOLO \<Rightarrow> DetectionRequest \<Rightarrow> exception + DetectionResponse" where
  "detect_objects_try E m request =
     (case (if truthy (image_data request) then decode_image E (the (image_data request))
            else if truthy (image_url request)
              then Inl (HTTPException 400 ''Image URL not supported yet'')
            else Inl (HTTPException 400 ''Either image_data or image_url required'')) of
        Inl e \<Rightarrow> Inl e
      | Inr img_array \<Rightarrow>
          (let img_height = ndarray_height img_array;
               img_width = ndarray_width img_array
           in case (if thresholds request \<noteq> []
                    then py_min (dict_values (thresholds request))
                    else Inr (CONFIDENCE_THRESHOLD E)) of
                Inl e \<Rightarrow> Inl e
              | Inr cnf \<Rightarrow>
                  (case m img_array cnf (nms_iou request) of
                     Inl e \<Rightarrow> Inl (Exception e)
                   | Inr rs \<Rightarrow>
                       Inr \<lparr> detections =
                               filter_detections (CONFIDENCE_THRESHOLD E) rs (classes request)
                                 (thresholds request) img_width img_height,
                             processing_time_ms =
                               (snd (loop_time E request) - fst (loop_time E request)) * 1000,
                             image_size = (img_width, img_height),
                             model_info =
                               [(''model_name'', String ''YOLOv8''),
                                (''device'', String (DEVICE E)),
                                (''num_classes'', Integer (int (length YOLO_TO_VY_CLASSES)))] \<rparr>)))"

text \<open>
  \<^verbatim>\<open>detect_objects\<close>: 503 without a model; otherwise the body, whose every exception
  the handler \<^verbatim>\<open>except Exception\<close> turns into a 500.
\<close>

definition detect_objects :: "'img env \<Rightarrow> DetectionRequest \<Rightarrow> exception + DetectionResponse" where
  "detect_objects E request =
     (case model E of
        None \<Rightarrow> Inl (HTTPException 503 ''Model not loaded'')
      | Some m \<Rightarrow>
          (case detect_objects_try E m request of
             Inl e \<Rightarrow> Inl (HTTPException 500 (''Detection failed: '' @ str_exception E e))
           | Inr response \<Rightarrow> Inr response))"

text \<open>
  An uploaded file: its name and what \<^verbatim>\<open>await file.read()\<close> gives (the content, or the
  text of an exception).
\<close>

record UploadFile =
  filename :: string
  file_read :: "string + bytes"

record BatchResponse =
  results :: "(string \<times> any) list list"

text \<open>
  One pass of the loop of \<^verbatim>\<open>batch_validate\<close>: the \<^verbatim>\<open>try\<close> block and its handler,
  giving the dictionary that is appended. The request is
  \<^verbatim>\<open>DetectionRequest(image_data=image_data)\<close>, the other fields at their defaults.
\<close>

definition batch_item :: "'img env \<Rightarrow> UploadFile \<Rightarrow> (string \<times> any) list" where
  "batch_item E file =
     (case (case file_read file of
              Inl e \<Rightarrow> Inl (Exception e)
            | Inr content \<Rightarrow>
                detect_objects E
                  \<lparr> image_data = Some (b64encode E content), image_url = None,
                    classes = [], thresholds = [], nms_iou = 0.45 \<rparr>) of
        Inr result \<Rightarrow>
          [(''filename'', String (filename file)),
           (''detections'', Integer (int (length (detections result)))),
           (''processing_time_ms'', Float (processing_time_ms result)),
           (''success'', Boolean True)]
      | Inl e \<Rightarrow>
          [(''filename'', String (filename file)),
           (''error'', String (str_exception E e)),
           (''success'', Boolean False)])"

fun batch_loop ::
  "'img env \<Rightarrow> UploadFile list \<Rightarrow> (string \<times> any) list list \<Rightarrow> (string \<times> any) list list" where
  "batch_loop E [] acc = acc"
| "batch_loop E (file # files) acc = batch_loop E files (acc @ [batch_item E file])"

definition batch_validate :: "'img env \<Rightarrow> UploadFile list \<Rightarrow> BatchResponse" where
  "batch_validate E files = \<lparr> results = batch_loop E files [] \<rparr>"

section \<open>The specification's vocabulary\<close>

text \<open>
  The definitions of this section follow the wording of the specification, not the code;
  the theorems below compare them with the functions above.

  The raw detections in the order the invoker produced them: result after result, and
  within a result the rows of the three parallel arrays.
\<close>

definition raw_detections :: "Results list \<Rightarrow> (xyxy \<times> real \<times> int) list" where
  "raw_detections rs =
     concat (map (\<lambda>r. case boxes r of
                          None \<Rightarrow> []
                        | Some b \<Rightarrow> zip (boxes_xyxy b) (zip (boxes_conf b) (boxes_cls b))) rs)"

text \<open>
  The effective threshold of a class name: the caller's override when there is one, else
  the configured default.
\<close>

definition effective_threshold :: "real \<Rightarrow> (string \<times> real) list \<Rightarrow> string \<Rightarrow> real" where
  "effective_threshold ct ths name = (case map_of ths name of Some t \<Rightarrow> t | None \<Rightarrow> ct)"

text \<open>
  A raw detection is kept when its class id is in the class map, its mapped name is in the
  allowlist whenever the allowlist is not empty, and its confidence is not below the
  effective threshold.
\<close>

definition kept ::
  "real \<Rightarrow> string list \<Rightarrow> (string \<times> real) list \<Rightarrow> xyxy \<times> real \<times> int \<Rightarrow> bool" where
  "kept ct cs ths d =
     (case d of (box, cnf, class_id) \<Rightarrow>
        (case map_of YOLO_TO_VY_CLASSES class_id of
           None \<Rightarrow> False
         | Some name \<Rightarrow>
             (cs \<noteq> [] \<longrightarrow> name \<in> set cs) \<and> \<not> cnf < effective_threshold ct ths name))"

text \<open>What a kept detection is emitted as.\<close>

definition emitted :: "int \<Rightarrow> int \<Rightarrow> xyxy \<times> real \<times> int \<Rightarrow> Detection" where
  "emitted w h d =
     (case d of (box, cnf, class_id) \<Rightarrow>
        \<lparr> class_name = the (map_of YOLO_TO_VY_CLASSES class_id),
          confidence = cnf,
          bbox = normalize_bbox box w h \<rparr>)"

text \<open>A result that holds a single raw detection.\<close>

definition one_detection :: "xyxy \<Rightarrow> real \<Rightarrow> int \<Rightarrow> Results" where
  "one_detection box cnf class_id =
     \<lparr> boxes = Some \<lparr> boxes_xyxy = [box], boxes_conf = [cnf], boxes_cls = [class_id] \<rparr> \<rparr>"

text \<open>A normalized box whose four fields are each in \<open>[0, 1]\<close>.\<close>

definition unit_box :: "BoundingBox \<Rightarrow> bool" where
  "unit_box b =
     (0 \<le> bbox_x b \<and> bbox_x b \<le> 1 \<and> 0 \<le> bbox_y b \<and> bbox_y b \<le> 1 \<and>
      0 \<le> bbox_width b \<and> bbox_width b \<le> 1 \<and> 0 \<le> bbox_height b \<and> bbox_height b \<le> 1)"

text \<open>A pixel-space corner box that lies within an image of width \<open>w\<close> and height \<open>h\<close>.\<close>

definition box_in_image :: "int \<Rightarrow> int \<Rightarrow> xyxy \<Rightarrow> bool" where
  "box_in_image w h b =
     (case b of (x1, y1, x2, y2) \<Rightarrow>
        0 \<le> x1 \<and> x1 \<le> x2 \<and> x2 \<le> real_of_int w \<and>
        0 \<le> y1 \<and> y1 \<le> y2 \<and> y2 \<le> real_of_int h)"

text \<open>
  The characters of a base64 payload. None of them is a comma or a colon.
\<close>

definition base64_alphabet :: "char set" where
  "base64_alphabet =
     set ''ABCDEFGHIJKLMNOPQRSTUVWXYZabcdefghijklmnopqrstuvwxyz0123456789+/=''"

text \<open>
  Decoding a payload directly: base64, then the image library, with every failure reported
  as the decoder reports it.
\<close>

definition decode_payload :: "'img env \<Rightarrow> string \<Rightarrow> exception + ndarray" where
  "decode_payload E payload =
     (case b64decode E payload of
        Inl e \<Rightarrow> Inl (HTTPException 400 (''Invalid image data: '' @ e))
      | Inr image_bytes \<Rightarrow>
          (case Image_open E image_bytes of
             Inl e \<Rightarrow> Inl (HTTPException 400 (''Invalid image data: '' @ e))
           | Inr img \<Rightarrow>
               (case (if image_mode E img \<noteq> ''RGB''
                      then image_convert E img ''RGB''
                      else Inr img) of
                  Inl e \<Rightarrow> Inl (HTTPException 400 (''Invalid image data: '' @ e))
                | Inr rgb \<Rightarrow>
                    (case np_array E rgb of
                       Inl e \<Rightarrow> Inl (HTTPException 400 (''Invalid image data: '' @ e))
                     | Inr img_array \<Rightarrow> Inr img_array))))"

text \<open>A string with everything up to and including its first comma stripped.\<close>

definition after_first_comma :: "string \<Rightarrow> string" where
  "after_first_comma s = tl (dropWhile (\<lambda>c. c \<noteq> CHR '','') s)"

text \<open>
  What processing one uploaded file gives: reading it and running the detect path on its
  base64 form, with the request's other fields at their defaults.
\<close>

definition file_outcome :: "'img env \<Rightarrow> UploadFile \<Rightarrow> exception + DetectionResponse" where
  "file_outcome E f =
     (case file_read f of
        Inl e \<Rightarrow> Inl (Exception e)
      | Inr content \<Rightarrow>
          detect_objects E
            \<lparr> image_data = Some (b64encode E content), image_url = None,
              classes = [], thresholds = [], nms_iou = 0.45 \<rparr>)"

section \<open>Sample inputs\<close>

text \<open>
  A result without boxes followed by a result with four rows: a person, an unmapped class,
  a car of low confidence and a bus.
\<close>

definition sample_results :: "Results list" where
  "sample_results =
     [\<lparr> boxes = None \<rparr>,
      \<lparr> boxes = Some
          \<lparr> boxes_xyxy = [(0, 0, 320, 240), (10, 10, 20, 20), (5, 5, 6, 6), (1, 2, 3, 4)],
            boxes_conf = [9/10, 8/10, 3/10, 7/10],
            boxes_cls = [0, 99, 2, 5] \<rparr> \<rparr>]"

text \<open>
  One result with four rows: a person, a car, a bus, and a row of an unmapped class whose
  box starts left of the image.
\<close>

definition sample_rows :: "Results list" where
  "sample_rows =
     [\<lparr> boxes = Some
          \<lparr> boxes_xyxy = [(0, 0, 64, 48), (64, 48, 128, 96), (0, 0, 320, 240), (-5, 0, 50, 50)],
            boxes_conf = [4/5, 3/5, 9/10, 1],
            boxes_cls = [0, 2, 5, 99] \<rparr> \<rparr>]"

text \<open>
  An environment for the examples. Its codec knows two byte strings, its image library
  opens only the first, its model returns one person whose confidence is the floor it was
  called with, and it prints an \<^verbatim>\<open>HTTPException\<close> as status and detail.
\<close>

definition sample_image :: ndarray where
  "sample_image = \<lparr> ndarray_height = 480, ndarray_width = 640, ndarray_data = [] \<rparr>"

definition sample_model :: YOLO where
  "sample_model img cnf iou = Inr [one_detection (0, 0, 64, 48) cnf 0]"

definition sample_env :: "bytes env" where
  "sample_env =
     \<lparr> model = Some sample_model,
       DEVICE = ''cpu'',
       CONFIDENCE_THRESHOLD = 1/2,
       b64decode = (\<lambda>s. if s = ''QUJD'' then Inr ''ABC''
                         else if s = ''WFla'' then Inr ''XYZ''
                         else Inl ''Incorrect padding''),
       b64encode = (\<lambda>b. if b = ''ABC'' then ''QUJD'' else if b = ''XYZ'' then ''WFla'' else []),
       Image_open = (\<lambda>b. if b = ''ABC'' then Inr b else Inl ''cannot identify image file''),
       image_mode = (\<lambda>i. ''RGB''),
       image_convert = (\<lambda>i m. Inr i),
       np_array = (\<lambda>i. Inr sample_image),
       HTTPException_str =
         (\<lambda>sc d. (if sc = 400 then ''400: '' else if sc = 500 then ''500: '' else ''503: '') @ d),
       loop_time = (\<lambda>r. (0, 1/100)),
       datetime_now = 0 \<rparr>"

text \<open>A request with three per-class thresholds, and a request without an image.\<close>

definition sample_request :: DetectionRequest where
  "sample_request =
     \<lparr> image_data = Some ''QUJD'', image_url = None, classes = [],
       thresholds = [(''car'', 3/10), (''person'', 1/5), (''truck'', 2/5)], nms_iou = 9/20 \<rparr>"

definition request_without_image :: DetectionRequest where
  "request_without_image =
     \<lparr> image_data = None, image_url = None, classes = [], thresholds = [], nms_iou = 9/20 \<rparr>"

text \<open>Three uploaded files, the second of which is not an image.\<close>

definition sample_files :: "UploadFile list" where
  "sample_files =
     [\<lparr> filename = ''a.jpg'', file_read = Inr ''ABC'' \<rparr>,
      \<lparr> filename = ''b.jpg'', file_read = Inr ''XYZ'' \<rparr>,
      \<lparr> filename = ''c.jpg'', file_read = Inr ''ABC'' \<rparr>]"

section \<open>Properties of the filter\<close>

lemma class_names_nonempty:
  "dict_get YOLO_TO_VY_CLASSES i = Some n \<Longrightarrow> n \<noteq> []"
  by (auto simp: dict_get_def YOLO_TO_VY_CLASSES_def split: if_splits)

lemma kept_unmapped:
  "dict_get YOLO_TO_VY_CLASSES cid = None \<Longrightarrow> \<not> kept ct cs ths (box, cnf, cid)"
  by (simp add: kept_def dict_get_def)

lemma kept_mapped:
  "dict_get YOLO_TO_VY_CLASSES cid = Some n \<Longrightarrow>
   kept ct cs ths (box, cnf, cid) =
     (\<not> (cs \<noteq> [] \<and> n \<notin> set cs) \<and> \<not> cnf < dict_get_default ths n ct)"
  by (auto simp: kept_def dict_get_def dict_get_default_def effective_threshold_def
      split: option.splits)

lemma emitted_mapped:
  "dict_get YOLO_TO_VY_CLASSES cid = Some n \<Longrightarrow>
   emitted w h (box, cnf, cid) =
     \<lparr> class_name = n, confidence = cnf, bbox = normalize_bbox box w h \<rparr>"
  by (simp add: emitted_def dict_get_def)

text \<open>
  The inner loop appends to its accumulator the kept rows, in order. The allowlist is
  generalised with the accumulator: the simplifier rewrites it in the branch where it is
  empty.
\<close>

lemma filter_boxes_acc:
  "filter_boxes ct cs ths w h ds acc = acc @ map (emitted w h) (filter (kept ct cs ths) ds)"
proof (induction ds arbitrary: acc cs)
  case Nil
  show ?case by simp
next
  case (Cons d ds)
  obtain box cnf cid where d: "d = (box, cnf, cid)" by (cases d) auto
  show ?case
  proof (cases "dict_get YOLO_TO_VY_CLASSES cid")
    case None
    then show ?thesis
      by (simp add: d kept_unmapped Cons.IH)
  next
    case (Some n)
    then have "n \<noteq> []" by (rule class_names_nonempty)
    with Some show ?thesis
      by (simp add: d kept_mapped emitted_mapped Cons.IH)
  qed
qed

lemma filter_results_acc:
  "filter_results ct cs ths w h rs acc =
     acc @ map (emitted w h) (filter (kept ct cs ths) (raw_detections rs))"
proof (induction rs arbitrary: acc)
  case Nil
  show ?case by (simp add: raw_detections_def)
next
  case (Cons r rs)
  show ?case
  proof (cases "boxes r")
    case None
    then show ?thesis using Cons.IH by (simp add: raw_detections_def)
  next
    case (Some b)
    then show ?thesis
      using Cons.IH by (simp add: raw_detections_def filter_boxes_acc)
  qed
qed

lemma filter_detections_eq:
  "filter_detections ct rs cs ths w h =
     map (emitted w h) (filter (kept ct cs ths) (raw_detections rs))"
  by (simp add: filter_detections_def filter_results_acc)


text \<open>
  Claim C2. For every sequence of raw detections, every allowlist and every thresholds
  mapping, and for the positive dimensions of a decoded image, \<^verbatim>\<open>filter_detections\<close>
  returns exactly the kept raw detections, in the order the invoker produced them, each
  emitted with its mapped class name, its raw confidence and its normalized box.
\<close>

theorem filter_detections_spec:
  assumes "0 < w" and "0 < h"
  shows "filter_detections ct rs cs ths w h =
           map (emitted w h) (filter (kept ct cs ths) (raw_detections rs))"
  by (rule filter_detections_eq)

theorem filter_detections_spec_witness:
  "(0::int) < 640 \<and> (0::int) < 480 \<and>
   filter_detections (1/2) sample_results [''person'', ''car''] [(''car'', 1/4)] 640 480 =
     [\<lparr> class_name = ''person'', confidence = 9/10,
        bbox = \<lparr> bbox_x = 0, bbox_y = 0, bbox_width = 1/2, bbox_height = 1/2 \<rparr> \<rparr>,
      \<lparr> class_name = ''car'', confidence = 3/10,
        bbox = \<lparr> bbox_x = 5/640, bbox_y = 5/480,
                 bbox_width = 1/640, bbox_height = 1/480 \<rparr> \<rparr>]"
  using filter_detections_spec
    [of 640 480 "1/2" sample_results "[''person'', ''car'']" "[(''car'', 1/4)]"]
  by (simp add: sample_results_def raw_detections_def kept_def emitted_def
      effective_threshold_def YOLO_TO_VY_CLASSES_def normalize_bbox_def)

lemma filter_detections_one:
  "filter_detections ct [one_detection box cnf cid] cs ths w h =
     filter_boxes ct cs ths w h [(box, cnf, cid)] []"
  by (simp add: filter_detections_def one_detection_def)

lemma dict_get_default_eq:
  "dict_get_default ths n ct = effective_threshold ct ths n"
  by (simp add: dict_get_default_def effective_threshold_def split: option.splits)

text \<open>
  Where a row stands among the raw detections, the output is what the rows before it give,
  then the row's own detection if it is kept, then what the rows after it give.
\<close>

lemma filter_detections_row:
  assumes "raw_detections rs = pre @ row # post"
  shows "filter_detections ct rs cs ths w h =
           map (emitted w h) (filter (kept ct cs ths) pre) @
           (if kept ct cs ths row then [emitted w h row] else []) @
           map (emitted w h) (filter (kept ct cs ths) post)"
  by (simp add: filter_detections_eq assms)

lemma kept_mapped_threshold:
  assumes "dict_get YOLO_TO_VY_CLASSES cid = Some n" and "cs \<noteq> [] \<longrightarrow> n \<in> set cs"
  shows "kept ct cs ths (box, cnf, cid) = (\<not> cnf < effective_threshold ct ths n)"
  using assms by (auto simp: kept_mapped dict_get_default_eq)

lemma sample_rows_raw:
  "raw_detections sample_rows =
     [((0, 0, 64, 48), 4/5, 0), ((64, 48, 128, 96), 3/5, 2),
      ((0, 0, 320, 240), 9/10, 5), ((-5, 0, 50, 50), 1, 99)]"
  by (simp add: raw_detections_def sample_rows_def)

text \<open>
  Claim C6. Take any raw detections and any row among them whose class id maps to a name
  that passes the allowlist. The output of \<^verbatim>\<open>filter_detections\<close> is the detections of
  the kept rows before it, then nothing when the row's confidence is strictly below the
  effective threshold of its name (the caller's override when present, else the global
  default) and the row's own detection otherwise, then the detections of the kept rows
  after it. In particular a car of confidence 0.6 is emitted, in its place, under
  \<open>thresholds = {car: 0.5}\<close> and dropped under \<open>thresholds = {car: 0.7}\<close>.
\<close>

theorem per_class_threshold:
  assumes "0 < w" and "0 < h"
  shows "(raw_detections rs = pre @ (box, cnf, class_id) # post \<longrightarrow>
          dict_get YOLO_TO_VY_CLASSES class_id = Some name \<longrightarrow>
          (cs \<noteq> [] \<longrightarrow> name \<in> set cs) \<longrightarrow>
          filter_detections ct rs cs ths w h =
            map (emitted w h) (filter (kept ct cs ths) pre) @
            (if cnf < effective_threshold ct ths name then []
             else [\<lparr> class_name = name, confidence = cnf,
                     bbox = normalize_bbox box w h \<rparr>]) @
            map (emitted w h) (filter (kept ct cs ths) post)) \<and>
         (raw_detections rs = pre @ (box, 6/10, 2) # post \<longrightarrow>
          (cs \<noteq> [] \<longrightarrow> ''car'' \<in> set cs) \<longrightarrow>
          filter_detections ct rs cs [(''car'', 5/10)] w h =
            map (emitted w h) (filter (kept ct cs [(''car'', 5/10)]) pre) @
            [\<lparr> class_name = ''car'', confidence = 6/10, bbox = normalize_bbox box w h \<rparr>] @
            map (emitted w h) (filter (kept ct cs [(''car'', 5/10)]) post)) \<and>
         (raw_detections rs = pre @ (box, 6/10, 2) # post \<longrightarrow>
          filter_detections ct rs cs [(''car'', 7/10)] w h =
            map (emitted w h) (filter (kept ct cs [(''car'', 7/10)]) pre) @
            map (emitted w h) (filter (kept ct cs [(''car'', 7/10)]) post))"
proof (intro conjI impI)
  assume r: "raw_detections rs = pre @ (box, cnf, class_id) # post"
    and m: "dict_get YOLO_TO_VY_CLASSES class_id = Some name"
    and a: "cs \<noteq> [] \<longrightarrow> name \<in> set cs"
  from m a have "kept ct cs ths (box, cnf, class_id) =
      (\<not> cnf < effective_threshold ct ths name)"
    by (rule kept_mapped_threshold)
  then show "filter_detections ct rs cs ths w h =
      map (emitted w h) (filter (kept ct cs ths) pre) @
      (if cnf < effective_threshold ct ths name then []
       else [\<lparr> class_name = name, confidence = cnf, bbox = normalize_bbox box w h \<rparr>]) @
      map (emitted w h) (filter (kept ct cs ths) post)"
    by (simp add: filter_detections_row [OF r] emitted_mapped [OF m])
next
  have car: "dict_get YOLO_TO_VY_CLASSES 2 = Some ''car''"
    by (simp add: dict_get_def YOLO_TO_VY_CLASSES_def)
  assume r: "raw_detections rs = pre @ (box, 6/10, 2) # post"
    and a: "cs \<noteq> [] \<longrightarrow> ''car'' \<in> set cs"
  from car a have "kept ct cs [(''car'', 5/10)] (box, 6/10, 2) =
      (\<not> (6/10::real) < effective_threshold ct [(''car'', 5/10)] ''car'')"
    by (rule kept_mapped_threshold)
  then have "kept ct cs [(''car'', 5/10)] (box, 6/10, 2)"
    by (simp add: effective_threshold_def)
  then show "filter_detections ct rs cs [(''car'', 5/10)] w h =
      map (emitted w h) (filter (kept ct cs [(''car'', 5/10)]) pre) @
      [\<lparr> class_name = ''car'', confidence = 6/10, bbox = normalize_bbox box w h \<rparr>] @
      map (emitted w h) (filter (kept ct cs [(''car'', 5/10)]) post)"
    by (simp add: filter_detections_row [OF r] emitted_mapped [OF car])
next
  have car: "dict_get YOLO_TO_VY_CLASSES 2 = Some ''car''"
    by (simp add: dict_get_def YOLO_TO_VY_CLASSES_def)
  assume r: "raw_detections rs = pre @ (box, 6/10, 2) # post"
  have "\<not> kept ct cs [(''car'', 7/10)] (box, 6/10, 2)"
    by (simp add: kept_mapped [OF car] dict_get_default_def)
  then show "filter_detections ct rs cs [(''car'', 7/10)] w h =
      map (emitted w h) (filter (kept ct cs [(''car'', 7/10)]) pre) @
      map (emitted w h) (filter (kept ct cs [(''car'', 7/10)]) post)"
    by (simp add: filter_detections_row [OF r])
qed

theorem per_class_threshold_witness:
  "(0::int) < 640 \<and> (0::int) < 480 \<and>
   raw_detections sample_rows =
     [((0, 0, 64, 48), 4/5, 0), ((64, 48, 128, 96), 3/5, 2)] @
     ((0, 0, 320, 240), 9/10, 5) # [((-5, 0, 50, 50), 1, 99)] \<and>
   dict_get YOLO_TO_VY_CLASSES 5 = Some ''truck'' \<and>
   filter_detections (1/2) sample_rows [] [(''truck'', 19/20)] 640 480 =
     [\<lparr> class_name = ''person'', confidence = 4/5,
        bbox = \<lparr> bbox_x = 0, bbox_y = 0, bbox_width = 1/10, bbox_height = 1/10 \<rparr> \<rparr>,
      \<lparr> class_name = ''car'', confidence = 3/5,
        bbox = \<lparr> bbox_x = 1/10, bbox_y = 1/10, bbox_width = 1/10, bbox_height = 1/10 \<rparr> \<rparr>] \<and>
   raw_detections sample_rows =
     [((0, 0, 64, 48), 4/5, 0)] @
     ((64, 48, 128, 96), 3/5, 2) # [((0, 0, 320, 240), 9/10, 5), ((-5, 0, 50, 50), 1, 99)] \<and>
   ''car'' \<in> set [''car'', ''truck''] \<and>
   filter_detections (1/2) sample_rows [''car'', ''truck''] [(''car'', 1/2)] 640 480 =
     [\<lparr> class_name = ''car'', confidence = 3/5,
        bbox = \<lparr> bbox_x = 1/10, bbox_y = 1/10, bbox_width = 1/10, bbox_height = 1/10 \<rparr> \<rparr>,
      \<lparr> class_name = ''truck'', confidence = 9/10,
        bbox = \<lparr> bbox_x = 0, bbox_y = 0, bbox_width = 1/2, bbox_height = 1/2 \<rparr> \<rparr>] \<and>
   filter_detections (1/2) sample_rows [''car'', ''truck''] [(''car'', 7/10)] 640 480 =
     [\<lparr> class_name = ''truck'', confidence = 9/10,
        bbox = \<lparr> bbox_x = 0, bbox_y = 0, bbox_width = 1/2, bbox_height = 1/2 \<rparr> \<rparr>]"
proof -
  have w: "(0::int) < 640" and h: "(0::int) < 480" by simp_all
  have r1: "raw_detections sample_rows =
     [((0, 0, 64, 48), 4/5, 0), ((64, 48, 128, 96), 3/5, 2)] @
     ((0, 0, 320, 240), 9/10, 5) # [((-5, 0, 50, 50), 1, 99)]"
    by (simp add: sample_rows_raw)
  have r2: "raw_detections sample_rows =
     [((0, 0, 64, 48), 4/5, 0)] @
     ((64, 48, 128, 96), 3/5, 2) # [((0, 0, 320, 240), 9/10, 5), ((-5, 0, 50, 50), 1, 99)]"
    by (simp add: sample_rows_raw)
  have bus: "dict_get YOLO_TO_VY_CLASSES 5 = Some ''truck''"
    by (simp add: dict_get_def YOLO_TO_VY_CLASSES_def)
  have a: "''car'' \<in> set [''car'', ''truck'']" by simp
  note t1 = per_class_threshold [OF w h, of sample_rows
      "[((0, 0, 64, 48), 4/5, 0), ((64, 48, 128, 96), 3/5, 2)]" "(0, 0, 320, 240)" "9/10" 5
      "[((-5, 0, 50, 50), 1, 99)]" "''truck''" "[]" "1/2" "[(''truck'', 19/20)]"]
  note t2 = per_class_threshold [OF w h, of sample_rows
      "[((0, 0, 64, 48), 4/5, 0)]" "(64, 48, 128, 96)" "3/5" 2
      "[((0, 0, 320, 240), 9/10, 5), ((-5, 0, 50, 50), 1, 99)]" "''car''"
      "[''car'', ''truck'']" "1/2" "[]"]
  have e: "emitted 640 480 ((0, 0, 64, 48), 4/5, 0) =
      \<lparr> class_name = ''person'', confidence = 4/5,
        bbox = \<lparr> bbox_x = 0, bbox_y = 0, bbox_width = 1/10, bbox_height = 1/10 \<rparr> \<rparr>"
    "emitted 640 480 ((64, 48, 128, 96), 3/5, 2) =
      \<lparr> class_name = ''car'', confidence = 3/5,
        bbox = \<lparr> bbox_x = 1/10, bbox_y = 1/10, bbox_width = 1/10, bbox_height = 1/10 \<rparr> \<rparr>"
    "emitted 640 480 ((0, 0, 320, 240), 9/10, 5) =
      \<lparr> class_name = ''truck'', confidence = 9/10,
        bbox = \<lparr> bbox_x = 0, bbox_y = 0, bbox_width = 1/2, bbox_height = 1/2 \<rparr> \<rparr>"
    by (simp_all add: emitted_def YOLO_TO_VY_CLASSES_def normalize_bbox_def)
  have c1: "filter_detections (1/2) sample_rows [] [(''truck'', 19/20)] 640 480 =
     [\<lparr> class_name = ''person'', confidence = 4/5,
        bbox = \<lparr> bbox_x = 0, bbox_y = 0, bbox_width = 1/10, bbox_height = 1/10 \<rparr> \<rparr>,
      \<lparr> class_name = ''car'', confidence = 3/5,
        bbox = \<lparr> bbox_x = 1/10, bbox_y = 1/10, bbox_width = 1/10, bbox_height = 1/10 \<rparr> \<rparr>]"
    using t1 r1 bus
    by (simp add: kept_def effective_threshold_def YOLO_TO_VY_CLASSES_def e)
  have c2: "filter_detections (1/2) sample_rows [''car'', ''truck''] [(''car'', 1/2)] 640 480 =
     [\<lparr> class_name = ''car'', confidence = 3/5,
        bbox = \<lparr> bbox_x = 1/10, bbox_y = 1/10, bbox_width = 1/10, bbox_height = 1/10 \<rparr> \<rparr>,
      \<lparr> class_name = ''truck'', confidence = 9/10,
        bbox = \<lparr> bbox_x = 0, bbox_y = 0, bbox_width = 1/2, bbox_height = 1/2 \<rparr> \<rparr>]"
    using t2 r2
    by (simp add: kept_def effective_threshold_def YOLO_TO_VY_CLASSES_def e normalize_bbox_def)
  have c3: "filter_detections (1/2) sample_rows [''car'', ''truck''] [(''car'', 7/10)] 640 480 =
     [\<lparr> class_name = ''truck'', confidence = 9/10,
        bbox = \<lparr> bbox_x = 0, bbox_y = 0, bbox_width = 1/2, bbox_height = 1/2 \<rparr> \<rparr>]"
    using t2 r2
    by (simp add: kept_def effective_threshold_def YOLO_TO_VY_CLASSES_def e)
  from w h r1 bus c1 r2 a c2 c3 show ?thesis by blast
qed

text \<open>
  Claim C7. Among any raw detections, a row of native class id 5 that passes the allowlist
  and the threshold is emitted, in its place, with the class name \<open>truck\<close>; a row of native
  class id 99 contributes nothing, for every confidence, allowlist and thresholds mapping.
\<close>

theorem class_remap:
  assumes "0 < w" and "0 < h"
  shows "(raw_detections rs = pre @ (box, cnf, 5) # post \<longrightarrow>
          (cs \<noteq> [] \<longrightarrow> ''truck'' \<in> set cs) \<longrightarrow>
          \<not> cnf < effective_threshold ct ths ''truck'' \<longrightarrow>
          filter_detections ct rs cs ths w h =
            map (emitted w h) (filter (kept ct cs ths) pre) @
            [\<lparr> class_name = ''truck'', confidence = cnf,
               bbox = normalize_bbox box w h \<rparr>] @
            map (emitted w h) (filter (kept ct cs ths) post)) \<and>
         (raw_detections rs = pre @ (box, cnf, 99) # post \<longrightarrow>
          filter_detections ct rs cs ths w h =
            map (emitted w h) (filter (kept ct cs ths) pre) @
            map (emitted w h) (filter (kept ct cs ths) post))"
proof (intro conjI impI)
  have bus: "dict_get YOLO_TO_VY_CLASSES 5 = Some ''truck''"
    by (simp add: dict_get_def YOLO_TO_VY_CLASSES_def)
  assume r: "raw_detections rs = pre @ (box, cnf, 5) # post"
    and a: "cs \<noteq> [] \<longrightarrow> ''truck'' \<in> set cs"
    and t: "\<not> cnf < effective_threshold ct ths ''truck''"
  from bus a have "kept ct cs ths (box, cnf, 5) =
      (\<not> cnf < effective_threshold ct ths ''truck'')"
    by (rule kept_mapped_threshold)
  with t have "kept ct cs ths (box, cnf, 5)" by simp
  then show "filter_detections ct rs cs ths w h =
      map (emitted w h) (filter (kept ct cs ths) pre) @
      [\<lparr> class_name = ''truck'', confidence = cnf, bbox = normalize_bbox box w h \<rparr>] @
      map (emitted w h) (filter (kept ct cs ths) post)"
    by (simp add: filter_detections_row [OF r] emitted_mapped [OF bus])
next
  have unmapped: "dict_get YOLO_TO_VY_CLASSES 99 = None"
    by (simp add: dict_get_def YOLO_TO_VY_CLASSES_def)
  assume r: "raw_detections rs = pre @ (box, cnf, 99) # post"
  have "\<not> kept ct cs ths (box, cnf, 99)"
    using unmapped by (rule kept_unmapped)
  then show "filter_detections ct rs cs ths w h =
      map (emitted w h) (filter (kept ct cs ths) pre) @
      map (emitted w h) (filter (kept ct cs ths) post)"
    by (simp add: filter_detections_row [OF r])
qed

theorem class_remap_witness:
  "(0::int) < 640 \<and> (0::int) < 480 \<and>
   raw_detections sample_rows =
     [((0, 0, 64, 48), 4/5, 0), ((64, 48, 128, 96), 3/5, 2)] @
     ((0, 0, 320, 240), 9/10, 5) # [((-5, 0, 50, 50), 1, 99)] \<and>
   ''truck'' \<in> set [''person'', ''car'', ''truck''] \<and>
   \<not> (9/10::real) < effective_threshold (1/2) [(''car'', 1/2)] ''truck'' \<and>
   raw_detections sample_rows =
     [((0, 0, 64, 48), 4/5, 0), ((64, 48, 128, 96), 3/5, 2), ((0, 0, 320, 240), 9/10, 5)] @
     ((-5, 0, 50, 50), 1, 99) # [] \<and>
   filter_detections (1/2) sample_rows [''person'', ''car'', ''truck''] [(''car'', 1/2)] 640 480 =
     [\<lparr> class_name = ''person'', confidence = 4/5,
        bbox = \<lparr> bbox_x = 0, bbox_y = 0, bbox_width = 1/10, bbox_height = 1/10 \<rparr> \<rparr>,
      \<lparr> class_name = ''car'', confidence = 3/5,
        bbox = \<lparr> bbox_x = 1/10, bbox_y = 1/10, bbox_width = 1/10, bbox_height = 1/10 \<rparr> \<rparr>,
      \<lparr> class_name = ''truck'', confidence = 9/10,
        bbox = \<lparr> bbox_x = 0, bbox_y = 0, bbox_width = 1/2, bbox_height = 1/2 \<rparr> \<rparr>]"
proof -
  have w: "(0::int) < 640" and h: "(0::int) < 480" by simp_all
  have r1: "raw_detections sample_rows =
     [((0, 0, 64, 48), 4/5, 0), ((64, 48, 128, 96), 3/5, 2)] @
     ((0, 0, 320, 240), 9/10, 5) # [((-5, 0, 50, 50), 1, 99)]"
    by (simp add: sample_rows_raw)
  have r2: "raw_detections sample_rows =
     [((0, 0, 64, 48), 4/5, 0), ((64, 48, 128, 96), 3/5, 2), ((0, 0, 320, 240), 9/10, 5)] @
     ((-5, 0, 50, 50), 1, 99) # []"
    by (simp add: sample_rows_raw)
  have a: "''truck'' \<in> set [''person'', ''car'', ''truck'']" by simp
  have t: "\<not> (9/10::real) < effective_threshold (1/2) [(''car'', 1/2)] ''truck''"
    by (simp add: effective_threshold_def)
  note c = class_remap [OF w h, of sample_rows
      "[((0, 0, 64, 48), 4/5, 0), ((64, 48, 128, 96), 3/5, 2)]" "(0, 0, 320, 240)" "9/10"
      "[((-5, 0, 50, 50), 1, 99)]" "[''person'', ''car'', ''truck'']" "1/2" "[(''car'', 1/2)]"]
  have e: "emitted 640 480 ((0, 0, 64, 48), 4/5, 0) =
      \<lparr> class_name = ''person'', confidence = 4/5,
        bbox = \<lparr> bbox_x = 0, bbox_y = 0, bbox_width = 1/10, bbox_height = 1/10 \<rparr> \<rparr>"
    "emitted 640 480 ((64, 48, 128, 96), 3/5, 2) =
      \<lparr> class_name = ''car'', confidence = 3/5,
        bbox = \<lparr> bbox_x = 1/10, bbox_y = 1/10, bbox_width = 1/10, bbox_height = 1/10 \<rparr> \<rparr>"
    by (simp_all add: emitted_def YOLO_TO_VY_CLASSES_def normalize_bbox_def)
  have "filter_detections (1/2) sample_rows [''person'', ''car'', ''truck''] [(''car'', 1/2)] 640 480 =
     [\<lparr> class_name = ''person'', confidence = 4/5,
        bbox = \<lparr> bbox_x = 0, bbox_y = 0, bbox_width = 1/10, bbox_height = 1/10 \<rparr> \<rparr>,
      \<lparr> class_name = ''car'', confidence = 3/5,
        bbox = \<lparr> bbox_x = 1/10, bbox_y = 1/10, bbox_width = 1/10, bbox_height = 1/10 \<rparr> \<rparr>,
      \<lparr> class_name = ''truck'', confidence = 9/10,
        bbox = \<lparr> bbox_x = 0, bbox_y = 0, bbox_width = 1/2, bbox_height = 1/2 \<rparr> \<rparr>]"
    using c r1 a t
    by (simp add: kept_def effective_threshold_def YOLO_TO_VY_CLASSES_def e normalize_bbox_def)
  with w h r1 a t r2 show ?thesis by blast
qed

section \<open>Properties of the normalizer\<close>

lemma normalize_bbox_unit:
  assumes "0 < w" and "0 < h" and "box_in_image w h b"
  shows "unit_box (normalize_bbox b w h)"
proof -
  obtain x1 y1 x2 y2 where b: "b = (x1, y1, x2, y2)" by (cases b) auto
  from assms(3) have x: "0 \<le> x1" "x1 \<le> x2" "x2 \<le> real_of_int w"
    and y: "0 \<le> y1" "y1 \<le> y2" "y2 \<le> real_of_int h"
    by (simp_all add: b box_in_image_def)
  from assms(1,2) have pos: "0 < real_of_int w" "0 < real_of_int h" by simp_all
  from x pos have "0 \<le> x1 / real_of_int w" "x1 / real_of_int w \<le> 1"
    "0 \<le> (x2 - x1) / real_of_int w" "(x2 - x1) / real_of_int w \<le> 1"
    by (simp_all add: divide_le_eq)
  moreover from y pos have "0 \<le> y1 / real_of_int h" "y1 / real_of_int h \<le> 1"
    "0 \<le> (y2 - y1) / real_of_int h" "(y2 - y1) / real_of_int h \<le> 1"
    by (simp_all add: divide_le_eq)
  ultimately show ?thesis
    by (simp add: b normalize_bbox_def unit_box_def)
qed

text \<open>
  Claim C5. For a positive width \<open>W\<close> and height \<open>H\<close> and corners with
  \<open>0 \<le> x1 \<le> x2 \<le> W\<close> and \<open>0 \<le> y1 \<le> y2 \<le> H\<close>, the four fields of the normalized box are
  each in \<open>[0, 1]\<close>, and \<open>x + width = x2 / W\<close> (in exact arithmetic).
\<close>

theorem normalize_bbox_round_trip:
  assumes "0 < W" and "0 < H"
    and "0 \<le> x1" and "x1 \<le> x2" and "x2 \<le> real_of_int W"
    and "0 \<le> y1" and "y1 \<le> y2" and "y2 \<le> real_of_int H"
  shows "unit_box (normalize_bbox (x1, y1, x2, y2) W H) \<and>
         bbox_x (normalize_bbox (x1, y1, x2, y2) W H) +
           bbox_width (normalize_bbox (x1, y1, x2, y2) W H) = x2 / real_of_int W"
proof
  from assms show "unit_box (normalize_bbox (x1, y1, x2, y2) W H)"
    by (intro normalize_bbox_unit) (simp_all add: box_in_image_def)
next
  show "bbox_x (normalize_bbox (x1, y1, x2, y2) W H) +
          bbox_width (normalize_bbox (x1, y1, x2, y2) W H) = x2 / real_of_int W"
    by (simp add: normalize_bbox_def diff_divide_distrib)
qed

theorem normalize_bbox_round_trip_witness:
  "(0::int) < 640 \<and> (0::int) < 480 \<and> (0::real) \<le> 64 \<and> (64::real) \<le> 320 \<and>
   (320::real) \<le> real_of_int 640 \<and> (0::real) \<le> 120 \<and> (120::real) \<le> 240 \<and>
   (240::real) \<le> real_of_int 480 \<and>
   unit_box (normalize_bbox (64, 120, 320, 240) 640 480) \<and>
   bbox_x (normalize_bbox (64, 120, 320, 240) 640 480) +
     bbox_width (normalize_bbox (64, 120, 320, 240) 640 480) = 320 / real_of_int 640"
  using normalize_bbox_round_trip [of 640 480 64 320 120 240]
  by simp




section \<open>The confidence floor of the model call\<close>

text \<open>Python's \<^verbatim>\<open>min\<close> over the values of a non-empty dictionary is their minimum.\<close>

lemma fold_min_eq:
  "fold (\<lambda>x m. if x < m then x else m) vs (v::real) = Min (set (v # vs))"
proof -
  have "(\<lambda>x m. if x < m then x else m) = (min :: real \<Rightarrow> real \<Rightarrow> real)"
    by (auto simp: fun_eq_iff min_def)
  then show ?thesis by (simp only: Min.set_eq_fold)
qed

lemma py_min_values:
  "ths \<noteq> [] \<Longrightarrow> py_min (dict_values ths) = Inr (Min (snd ` set ths))"
  by (cases ths) (simp_all add: dict_values_def fold_min_eq)

text \<open>
  Claim C3. Whenever \<^verbatim>\<open>detect_objects\<close> reaches the model (a model is loaded and the
  image decodes), it calls the model with the confidence floor
  \<open>Min (snd ` set thresholds)\<close>, the minimum of the caller's per-class thresholds, when the
  thresholds mapping is not empty, and with the configured default when it is empty; the
  response is computed from the result of that call.
\<close>

theorem model_confidence_floor:
  assumes "model E = Some m"
    and "truthy (image_data request)"
    and "decode_image E (the (image_data request)) = Inr img"
  shows "detect_objects E request =
     (case m img
             (if thresholds request = [] then CONFIDENCE_THRESHOLD E
              else Min (snd ` set (thresholds request)))
             (nms_iou request) of
        Inl e \<Rightarrow> Inl (HTTPException 500 (''Detection failed: '' @ e))
      | Inr rs \<Rightarrow>
          Inr \<lparr> detections =
                  filter_detections (CONFIDENCE_THRESHOLD E) rs (classes request)
                    (thresholds request) (ndarray_width img) (ndarray_height img),
                processing_time_ms =
                  (snd (loop_time E request) - fst (loop_time E request)) * 1000,
                image_size = (ndarray_width img, ndarray_height img),
                model_info =
                  [(''model_name'', String ''YOLOv8''),
                   (''device'', String (DEVICE E)),
                   (''num_classes'', Integer 10)] \<rparr>)"
proof (cases "thresholds request = []")
  case True
  with assms show ?thesis
    by (simp add: detect_objects_def detect_objects_try_def str_exception_def
        YOLO_TO_VY_CLASSES_def Let_def split: sum.splits)
next
  case False
  then have "py_min (dict_values (thresholds request)) = Inr (Min (snd ` set (thresholds request)))"
    by (rule py_min_values)
  with False assms show ?thesis
    by (simp add: detect_objects_def detect_objects_try_def str_exception_def
        YOLO_TO_VY_CLASSES_def Let_def split: sum.splits)
qed

lemma sample_decode: "decode_image sample_env ''QUJD'' = Inr sample_image"
  by (simp add: decode_image_def decode_image_try_def sample_env_def startswith_def)

theorem model_confidence_floor_witness:
  "model sample_env = Some sample_model \<and> truthy (image_data sample_request) \<and>
   decode_image sample_env (the (image_data sample_request)) = Inr sample_image \<and>
   detect_objects sample_env sample_request =
     Inr \<lparr> detections =
             [\<lparr> class_name = ''person'', confidence = 1/5,
                bbox = \<lparr> bbox_x = 0, bbox_y = 0, bbox_width = 1/10, bbox_height = 1/10 \<rparr> \<rparr>],
           processing_time_ms = 10, image_size = (640, 480),
           model_info = [(''model_name'', String ''YOLOv8''), (''device'', String ''cpu''),
                         (''num_classes'', Integer 10)] \<rparr>"
proof -
  have m: "model sample_env = Some sample_model"
    by (simp add: sample_env_def)
  have t: "truthy (image_data sample_request)"
    by (simp add: sample_request_def truthy_def)
  have d: "decode_image sample_env (the (image_data sample_request)) = Inr sample_image"
    by (simp add: sample_request_def sample_decode)
  have "Min (snd ` set (thresholds sample_request)) = 1/5"
    by (simp add: sample_request_def)
  then have "detect_objects sample_env sample_request =
     Inr \<lparr> detections =
             [\<lparr> class_name = ''person'', confidence = 1/5,
                bbox = \<lparr> bbox_x = 0, bbox_y = 0, bbox_width = 1/10, bbox_height = 1/10 \<rparr> \<rparr>],
           processing_time_ms = 10, image_size = (640, 480),
           model_info = [(''model_name'', String ''YOLOv8''), (''device'', String ''cpu''),
                         (''num_classes'', Integer 10)] \<rparr>"
    using model_confidence_floor [OF m t d]
    by (simp add: sample_request_def sample_env_def sample_model_def sample_image_def
        filter_detections_one dict_get_def dict_get_default_def YOLO_TO_VY_CLASSES_def
        normalize_bbox_def)
  with m t d show ?thesis by simp
qed

section \<open>The decoder and data URLs\<close>

lemma str_split_no_sep:
  "sep \<notin> set s \<Longrightarrow> str_split s sep = [s]"
  by (induction s) auto

lemma str_split_first:
  "sep \<notin> set a \<Longrightarrow> str_split (a @ sep # rest) sep = a # str_split rest sep"
  by (induction a) auto

lemma after_first_comma_append:
  "CHR '','' \<notin> set a \<Longrightarrow> after_first_comma (a @ CHR '','' # rest) = rest"
  by (induction a) (auto simp: after_first_comma_def)

lemma comma_not_base64: "CHR '','' \<notin> base64_alphabet"
  by (simp add: base64_alphabet_def)

lemma base64_not_data_url:
  assumes "set s \<subseteq> base64_alphabet"
  shows "\<not> startswith s ''data:image''"
proof
  assume "startswith s ''data:image''"
  then have e: "take (length ''data:image'') s = ''data:image''"
    unfolding startswith_def .
  have "set (take (length ''data:image'') s) \<subseteq> set s"
    by (rule set_take_subset)
  then have "set ''data:image'' \<subseteq> set s"
    unfolding e .
  then have "CHR '':'' \<in> set s" by simp
  with assms have "CHR '':'' \<in> base64_alphabet" by blast
  then show False by (simp add: base64_alphabet_def)
qed

lemma decode_image_plain:
  "\<not> startswith s ''data:image'' \<Longrightarrow> decode_image E s = decode_payload E s"
  by (simp add: decode_image_def decode_image_try_def decode_payload_def split: sum.splits)

lemma decode_image_data_url:
  assumes "CHR '','' \<notin> set a" and "CHR '','' \<notin> set s"
  shows "decode_image E (''data:image'' @ a @ CHR '','' # s) = decode_payload E s"
proof -
  have "str_split ((''data:image'' @ a) @ CHR '','' # s) CHR '','' = [''data:image'' @ a, s]"
    using assms by (subst str_split_first) (simp_all add: str_split_no_sep)
  then have "py_index (str_split (''data:image'' @ a @ CHR '','' # s) CHR '','') 1 = Inr s"
    by (simp add: py_index_def)
  moreover have "startswith (''data:image'' @ a @ CHR '','' # s) ''data:image''"
    by (simp add: startswith_def)
  ultimately show ?thesis
    by (simp add: decode_image_def decode_image_try_def decode_payload_def split: sum.splits)
qed

text \<open>
  Claim C8. For every payload \<open>s\<close> over the base64 alphabet (so without a comma) and every
  media subtype without a comma, decoding \<open>data:image/subtype;base64,s\<close> gives what
  decoding \<open>s\<close> gives, the same pixel array or the same failure; and what is decoded is the
  text after the first comma.
\<close>

theorem decode_image_data_url_prefix:
  assumes "set s \<subseteq> base64_alphabet" and "CHR '','' \<notin> set subtype"
  shows "decode_image E (''data:image/'' @ subtype @ '';base64,'' @ s) = decode_image E s \<and>
         decode_image E (''data:image/'' @ subtype @ '';base64,'' @ s) =
           decode_payload E (after_first_comma (''data:image/'' @ subtype @ '';base64,'' @ s))"
proof -
  let ?a = "''/'' @ subtype @ '';base64''"
  have url: "''data:image/'' @ subtype @ '';base64,'' @ s = ''data:image'' @ ?a @ CHR '','' # s"
    by simp
  have a: "CHR '','' \<notin> set ?a" using assms(2) by simp
  have s: "CHR '','' \<notin> set s" using assms(1) comma_not_base64 by blast
  have 1: "decode_image E (''data:image'' @ ?a @ CHR '','' # s) = decode_payload E s"
    using a s by (rule decode_image_data_url)
  have 2: "decode_image E s = decode_payload E s"
    using assms(1) by (intro decode_image_plain base64_not_data_url)
  have 3: "after_first_comma ((''data:image'' @ ?a) @ CHR '','' # s) = s"
    using a by (intro after_first_comma_append) simp
  show ?thesis
    unfolding url using 1 2 3 by simp
qed

theorem decode_image_data_url_prefix_witness:
  "set ''QUJD'' \<subseteq> base64_alphabet \<and> CHR '','' \<notin> set ''png'' \<and>
   decode_image sample_env ''data:image/png;base64,QUJD'' = decode_image sample_env ''QUJD'' \<and>
   decode_image sample_env ''data:image/png;base64,QUJD'' =
     decode_payload sample_env (after_first_comma ''data:image/png;base64,QUJD'') \<and>
   decode_payload sample_env (after_first_comma ''data:image/png;base64,QUJD'') =
     Inr sample_image"
proof -
  have b: "set ''QUJD'' \<subseteq> base64_alphabet"
    by (simp add: base64_alphabet_def)
  have c: "CHR '','' \<notin> set ''png''" by simp
  have "decode_payload sample_env (after_first_comma ''data:image/png;base64,QUJD'') =
      Inr sample_image"
    by (simp add: decode_payload_def after_first_comma_def sample_env_def)
  moreover have "''data:image/'' @ ''png'' @ '';base64,'' @ ''QUJD'' = ''data:image/png;base64,QUJD''"
    by simp
  ultimately show ?thesis
    using b c decode_image_data_url_prefix [OF b c, of sample_env] by metis
qed

section \<open>Properties of the endpoints\<close>

text \<open>
  Claim C10. In every process state the health response is consistent: the status is
  \<open>healthy\<close> exactly when \<open>model_loaded\<close> is true, \<open>unhealthy\<close> exactly when it is false,
  \<open>model_loaded\<close> is true exactly when a model is loaded, and there is no third status.
\<close>

theorem health_check_consistent:
  "(status (health_check E) = ''healthy'') = model_loaded (health_check E) \<and>
   (status (health_check E) = ''unhealthy'') = (\<not> model_loaded (health_check E)) \<and>
   model_loaded (health_check E) = (model E \<noteq> None) \<and>
   (status (health_check E) = ''healthy'' \<or> status (health_check E) = ''unhealthy'')"
  by (simp add: health_check_def)

text \<open>
  Claim C1 asks that, with a model loaded, a request without an image, a request with an
  image URL and a request whose image does not decode fail with a client error (4xx).
  The code does otherwise. Each of the three raises its 400 inside the \<^verbatim>\<open>try\<close> block
  of \<^verbatim>\<open>detect_objects\<close>, whose handler \<^verbatim>\<open>except Exception\<close> catches it and raises a
  500 in its place, the 400 surviving only as text inside the detail.
\<close>

theorem detect_objects_masks_client_errors:
  assumes "model E = Some m"
  shows "(\<not> truthy (image_data request) \<and> \<not> truthy (image_url request) \<longrightarrow>
            detect_objects E request =
              Inl (HTTPException 500
                (''Detection failed: '' @
                 HTTPException_str E 400 ''Either image_data or image_url required''))) \<and>
         (\<not> truthy (image_data request) \<and> truthy (image_url request) \<longrightarrow>
            detect_objects E request =
              Inl (HTTPException 500
                (''Detection failed: '' @
                 HTTPException_str E 400 ''Image URL not supported yet''))) \<and>
         (truthy (image_data request) \<and>
          decode_image_try E (the (image_data request)) = Inl cause \<longrightarrow>
            detect_objects E request =
              Inl (HTTPException 500
                (''Detection failed: '' @
                 HTTPException_str E 400 (''Invalid image data: '' @ cause))))"
  using assms
  by (simp add: detect_objects_def detect_objects_try_def decode_image_def str_exception_def)

theorem detect_objects_masks_client_errors_witness:
  "model sample_env = Some sample_model \<and>
   \<not> truthy (image_data request_without_image) \<and>
   \<not> truthy (image_url request_without_image) \<and>
   detect_objects sample_env request_without_image =
     Inl (HTTPException 500 ''Detection failed: 400: Either image_data or image_url required'') \<and>
   \<not> truthy (image_data (request_without_image\<lparr> image_url := Some ''http://x/y.jpg'' \<rparr>)) \<and>
   truthy (image_url (request_without_image\<lparr> image_url := Some ''http://x/y.jpg'' \<rparr>)) \<and>
   detect_objects sample_env (request_without_image\<lparr> image_url := Some ''http://x/y.jpg'' \<rparr>) =
     Inl (HTTPException 500 ''Detection failed: 400: Image URL not supported yet'') \<and>
   truthy (image_data (request_without_image\<lparr> image_data := Some ''abc'' \<rparr>)) \<and>
   decode_image_try sample_env
     (the (image_data (request_without_image\<lparr> image_data := Some ''abc'' \<rparr>))) =
     Inl ''Incorrect padding'' \<and>
   detect_objects sample_env (request_without_image\<lparr> image_data := Some ''abc'' \<rparr>) =
     Inl (HTTPException 500
       ''Detection failed: 400: Invalid image data: Incorrect padding'')"
proof -
  have m: "model sample_env = Some sample_model"
    by (simp add: sample_env_def)
  have s: "HTTPException_str sample_env 400 d = ''400: '' @ d" for d
    by (simp add: sample_env_def)
  have d: "decode_image_try sample_env ''abc'' = Inl ''Incorrect padding''"
    by (simp add: decode_image_try_def startswith_def sample_env_def)
  show ?thesis
    using m
      detect_objects_masks_client_errors [OF m, of request_without_image]
      detect_objects_masks_client_errors
        [OF m, of "request_without_image\<lparr> image_url := Some ''http://x/y.jpg'' \<rparr>"]
      detect_objects_masks_client_errors
        [OF m, of "request_without_image\<lparr> image_data := Some ''abc'' \<rparr>" "''Incorrect padding''"]
    by (simp add: request_without_image_def truthy_def s d)
qed

text \<open>The loop of \<^verbatim>\<open>batch_validate\<close> appends one entry per file, in order.\<close>

lemma batch_loop_acc:
  "batch_loop E files acc = acc @ map (batch_item E) files"
  by (induction files arbitrary: acc) simp_all

lemma batch_item_outcome:
  "batch_item E f =
     (case file_outcome E f of
        Inl e \<Rightarrow>
          [(''filename'', String (filename f)),
           (''error'', String (str_exception E e)),
           (''success'', Boolean False)]
      | Inr r \<Rightarrow>
          [(''filename'', String (filename f)),
           (''detections'', Integer (int (length (detections r)))),
           (''processing_time_ms'', Float (processing_time_ms r)),
           (''success'', Boolean True)])"
  by (simp add: batch_item_def file_outcome_def split: sum.splits)

lemma batch_item_filename:
  "dict_get (batch_item E f) ''filename'' = Some (String (filename f))"
  by (simp add: batch_item_outcome dict_get_def split: sum.splits)

text \<open>
  Claim C9. For every list of uploaded files, the result list of \<^verbatim>\<open>batch_validate\<close> has
  one entry per file, in upload order (the file names agree position by position), and
  the entry at each position is determined by processing that file alone: when the
  processing raised, the entry has \<open>success = False\<close> and carries the text of the
  exception, and otherwise it has \<open>success = True\<close>. No failure stops the loop.
\<close>

theorem batch_validate_isolates:
  "length (results (batch_validate E files)) = length files \<and>
   map (\<lambda>entry. dict_get entry ''filename'') (results (batch_validate E files)) =
     map (\<lambda>f. Some (String (filename f))) files \<and>
   (\<forall>i < length files.
      results (batch_validate E files) ! i =
        (case file_outcome E (files ! i) of
           Inl e \<Rightarrow>
             [(''filename'', String (filename (files ! i))),
              (''error'', String (str_exception E e)),
              (''success'', Boolean False)]
         | Inr r \<Rightarrow>
             [(''filename'', String (filename (files ! i))),
              (''detections'', Integer (int (length (detections r)))),
              (''processing_time_ms'', Float (processing_time_ms r)),
              (''success'', Boolean True)]))"
proof -
  have r: "results (batch_validate E files) = map (batch_item E) files"
    by (simp add: batch_validate_def batch_loop_acc)
  have "map (\<lambda>entry. dict_get entry ''filename'') (map (batch_item E) files) =
      map (\<lambda>f. Some (String (filename f))) files"
    by (simp add: batch_item_filename)
  then show ?thesis
    by (simp add: r batch_item_outcome)
qed

lemma sample_outcome_ok:
  "file_outcome sample_env \<lparr> filename = n, file_read = Inr ''ABC'' \<rparr> =
     Inr \<lparr> detections =
             [\<lparr> class_name = ''person'', confidence = 1/2,
                bbox = \<lparr> bbox_x = 0, bbox_y = 0, bbox_width = 1/10, bbox_height = 1/10 \<rparr> \<rparr>],
           processing_time_ms = 10, image_size = (640, 480),
           model_info = [(''model_name'', String ''YOLOv8''), (''device'', String ''cpu''),
                         (''num_classes'', Integer 10)] \<rparr>"
  by (simp add: file_outcome_def detect_objects_def detect_objects_try_def truthy_def
      decode_image_def decode_image_try_def startswith_def sample_env_def sample_model_def
      sample_image_def filter_detections_one dict_get_def dict_get_default_def
      YOLO_TO_VY_CLASSES_def normalize_bbox_def)

lemma sample_outcome_corrupt:
  "file_outcome sample_env \<lparr> filename = n, file_read = Inr ''XYZ'' \<rparr> =
     Inl (HTTPException 500
       ''Detection failed: 400: Invalid image data: cannot identify image file'')"
  by (simp add: file_outcome_def detect_objects_def detect_objects_try_def truthy_def
      decode_image_def decode_image_try_def startswith_def sample_env_def str_exception_def)

theorem batch_validate_isolates_witness:
  "length (results (batch_validate sample_env sample_files)) = 3 \<and>
   map (\<lambda>entry. dict_get entry ''filename'') (results (batch_validate sample_env sample_files)) =
     [Some (String ''a.jpg''), Some (String ''b.jpg''), Some (String ''c.jpg'')] \<and>
   (0::nat) < length sample_files \<and>
   results (batch_validate sample_env sample_files) ! 0 =
     [(''filename'', String ''a.jpg''), (''detections'', Integer 1),
      (''processing_time_ms'', Float 10), (''success'', Boolean True)] \<and>
   (1::nat) < length sample_files \<and>
   results (batch_validate sample_env sample_files) ! 1 =
     [(''filename'', String ''b.jpg''),
      (''error'', String
         ''500: Detection failed: 400: Invalid image data: cannot identify image file''),
      (''success'', Boolean False)] \<and>
   (2::nat) < length sample_files \<and>
   results (batch_validate sample_env sample_files) ! 2 =
     [(''filename'', String ''c.jpg''), (''detections'', Integer 1),
      (''processing_time_ms'', Float 10), (''success'', Boolean True)]"
proof -
  note t = batch_validate_isolates [of sample_env sample_files]
  have len: "length sample_files = 3" by (simp add: sample_files_def)
  have str: "str_exception sample_env (HTTPException 500 d) = ''500: '' @ d" for d
    by (simp add: str_exception_def sample_env_def)
  from t have n: "\<And>i. i < 3 \<Longrightarrow> results (batch_validate sample_env sample_files) ! i =
        (case file_outcome sample_env (sample_files ! i) of
           Inl e \<Rightarrow>
             [(''filename'', String (filename (sample_files ! i))),
              (''error'', String (str_exception sample_env e)),
              (''success'', Boolean False)]
         | Inr r \<Rightarrow>
             [(''filename'', String (filename (sample_files ! i))),
              (''detections'', Integer (int (length (detections r)))),
              (''processing_time_ms'', Float (processing_time_ms r)),
              (''success'', Boolean True)])"
    by (simp add: len)
  have e0: "sample_files ! 0 = \<lparr> filename = ''a.jpg'', file_read = Inr ''ABC'' \<rparr>"
    and e1: "sample_files ! Suc 0 = \<lparr> filename = ''b.jpg'', file_read = Inr ''XYZ'' \<rparr>"
    and e2: "sample_files ! 2 = \<lparr> filename = ''c.jpg'', file_read = Inr ''ABC'' \<rparr>"
    by (simp_all add: sample_files_def)
  from t have "length (results (batch_validate sample_env sample_files)) = 3"
    by (simp add: len)
  moreover from t have
    "map (\<lambda>entry. dict_get entry ''filename'') (results (batch_validate sample_env sample_files)) =
       [Some (String ''a.jpg''), Some (String ''b.jpg''), Some (String ''c.jpg'')]"
    by (simp add: sample_files_def)
  moreover have "results (batch_validate sample_env sample_files) ! 0 =
     [(''filename'', String ''a.jpg''), (''detections'', Integer 1),
      (''processing_time_ms'', Float 10), (''success'', Boolean True)]"
    using n [of 0] by (simp add: e0 sample_outcome_ok)
  moreover have "results (batch_validate sample_env sample_files) ! 1 =
     [(''filename'', String ''b.jpg''),
      (''error'', String
         ''500: Detection failed: 400: Invalid image data: cannot identify image file''),
      (''success'', Boolean False)]"
    using n [of 1] by (simp add: e1 sample_outcome_corrupt str)
  moreover have "results (batch_validate sample_env sample_files) ! 2 =
     [(''filename'', String ''c.jpg''), (''detections'', Integer 1),
      (''processing_time_ms'', Float 10), (''success'', Boolean True)]"
    using n [of 2] by (simp add: e2 sample_outcome_ok)
  ultimately show ?thesis by (simp add: len)
qed

end
